theory Spec2Isabelle
  imports Main "HOL-Library.Word" "HOL-Library.AList"
begin

section \<open>Data model of the s3lib package\<close>

text \<open>
  The package is a wrapper around the AWS SDK for Go. The wrapper's own code (input
  checks, request building, error mapping, teardown) is embedded function by function;
  the SDK is a parameter: a record of response functions over an arbitrary service
  state \<open>'s\<close>. A Go pointer or nil-able slice is an \<open>option\<close> (\<open>None\<close> is nil), a Go
  multiple return \<open>(v, err)\<close> is a pair whose second component is an \<open>error option\<close>.
\<close>

type_synonym byte = "8 word"
type_synonym int64 = "64 word"

text \<open>\<open>time.Time\<close> as the number of nanoseconds since the zero \<open>Time\<close>.\<close>
type_synonym Time = int

text \<open>
  errors.go declares four sentinels. The SDK hands back either an \<open>awserr.Error\<close>
  (code and message) or some other error; \<open>fmt.Errorf\<close> with the verb \<open>%w\<close> wraps a
  cause under a format string.
\<close>

datatype error =
    ErrInvalidConfig
  | ErrInvalidBucket
  | ErrInvalidKey
  | ErrFileNotFound
  | AwsErr string string
  | OtherErr string
  | Errorf string error

text \<open>The type assertion \<open>err.(awserr.Error)\<close> followed by \<open>aerr.Code()\<close>.\<close>
fun awserr_Code :: "error \<Rightarrow> string option" where
  "awserr_Code (AwsErr code msg) = Some code"
| "awserr_Code ErrInvalidConfig = None"
| "awserr_Code ErrInvalidBucket = None"
| "awserr_Code ErrInvalidKey = None"
| "awserr_Code ErrFileNotFound = None"
| "awserr_Code (OtherErr msg) = None"
| "awserr_Code (Errorf f e) = None"

definition ErrCodeNoSuchBucket :: string where
  "ErrCodeNoSuchBucket = ''NoSuchBucket''"

text \<open>\<open>errors.Unwrap\<close> and \<open>errors.Is\<close> on this error type.\<close>
fun Unwrap :: "error \<Rightarrow> error option" where
  "Unwrap (Errorf f e) = Some e"
| "Unwrap ErrInvalidConfig = None"
| "Unwrap ErrInvalidBucket = None"
| "Unwrap ErrInvalidKey = None"
| "Unwrap ErrFileNotFound = None"
| "Unwrap (AwsErr code msg) = None"
| "Unwrap (OtherErr msg) = None"

fun errors_Is :: "error \<Rightarrow> error \<Rightarrow> bool" where
  "errors_Is (Errorf f e) target = (Errorf f e = target \<or> errors_Is e target)"
| "errors_Is ErrInvalidConfig target = (ErrInvalidConfig = target)"
| "errors_Is ErrInvalidBucket target = (ErrInvalidBucket = target)"
| "errors_Is ErrInvalidKey target = (ErrInvalidKey = target)"
| "errors_Is ErrFileNotFound target = (ErrFileNotFound = target)"
| "errors_Is (AwsErr code msg) target = (AwsErr code msg = target)"
| "errors_Is (OtherErr msg) target = (OtherErr msg = target)"

text \<open>A call either returns or ends in a nil-pointer panic.\<close>
datatype 'a outcome = Panic | Return 'a

datatype Context = Background | WithDeadline Time

subsection \<open>config.go\<close>

record Config =
  Region :: string
  AccessKey :: string
  SecretKey :: string
  Duration :: int64
  Endpoint :: string
  UseSSL :: bool
  Debug :: bool

definition Validate :: "Config \<Rightarrow> error option" where
  "Validate c =
     (if Region c = '''' then Some ErrInvalidConfig
      else if AccessKey c = '''' then Some ErrInvalidConfig
      else if SecretKey c = '''' then Some ErrInvalidConfig
      else None)"

subsection \<open>The SDK's types, as far as the wrapper touches them\<close>

record AwsConfig =
  aws_Region :: "string option"
  aws_Credentials :: "string \<times> string \<times> string"
  aws_Endpoint :: "string option"
  aws_S3ForcePathStyle :: "bool option"

datatype Session = Session AwsConfig
datatype S3 = S3 Session
datatype Uploader = Uploader Session

definition NewStaticCredentials :: "string \<Rightarrow> string \<Rightarrow> string \<Rightarrow> string \<times> string \<times> string" where
  "NewStaticCredentials akid secret token = (akid, secret, token)"

record ListObjectsV2Input =
  li_Bucket :: "string option"
  li_Prefix :: "string option"

record Object =
  obj_Key :: "string option"
  obj_Size :: "int64 option"
  obj_LastModified :: "Time option"
  obj_ETag :: "string option"
  obj_StorageClass :: "string option"

record ListObjectsV2Output =
  lo_Contents :: "Object list"

record UploadInput =
  ui_Bucket :: "string option"
  ui_Key :: "string option"
  ui_Body :: "byte list"
  ui_ContentType :: "string option"
  ui_ContentDisposition :: "string option"
  ui_CacheControl :: "string option"
  ui_Metadata :: "(string \<rightharpoonup> string) option"
  ui_StorageClass :: "string option"
  ui_ACL :: "string option"

record UploadOutput =
  Location :: string

record HeadObjectInput =
  hi_Bucket :: "string option"
  hi_Key :: "string option"

record HeadObjectOutput =
  ho_ContentLength :: "int64 option"
  ho_LastModified :: "Time option"
  ho_ETag :: "string option"
  ho_StorageClass :: "string option"

record GetObjectInput =
  gi_Bucket :: "string option"
  gi_Key :: "string option"

record DeleteObjectInput =
  di_Bucket :: "string option"
  di_Key :: "string option"

text \<open>\<open>aws.StringValue\<close>, \<open>aws.Int64Value\<close>, \<open>aws.TimeValue\<close>: the zero value for nil.\<close>
definition StringValue :: "string option \<Rightarrow> string" where
  "StringValue p = (case p of None \<Rightarrow> '''' | Some v \<Rightarrow> v)"

definition Int64Value :: "int64 option \<Rightarrow> int64" where
  "Int64Value p = (case p of None \<Rightarrow> 0 | Some v \<Rightarrow> v)"

definition TimeValue :: "Time option \<Rightarrow> Time" where
  "TimeValue p = (case p of None \<Rightarrow> 0 | Some v \<Rightarrow> v)"

text \<open>Every request that reaches the service is recorded, in order.\<close>
datatype sdk_call =
    CallListObjectsV2 ListObjectsV2Input
  | CallUpload UploadInput
  | CallHeadObject HeadObjectInput
  | CallDownload GetObjectInput
  | CallDeleteObject DeleteObjectInput

text \<open>
  The SDK as the wrapper sees it. \<open>newSession\<close> is local; every other function is a
  request against the service state. \<open>listPages\<close> gives the pages the paginator
  fetches and the error that ended the paging, if any; \<open>download\<close> gives the bytes
  written to the caller's buffer and the transfer's error, if any.
\<close>
record 's sdk =
  newSession :: "AwsConfig \<Rightarrow> error + Session"
  listPages :: "S3 \<Rightarrow> Context \<Rightarrow> ListObjectsV2Input \<Rightarrow> 's
                  \<Rightarrow> (ListObjectsV2Output list \<times> error option) \<times> 's"
  upload :: "Uploader \<Rightarrow> Context \<Rightarrow> UploadInput \<Rightarrow> 's \<Rightarrow> (error + UploadOutput) \<times> 's"
  headObject :: "S3 \<Rightarrow> Context \<Rightarrow> HeadObjectInput \<Rightarrow> 's \<Rightarrow> (error + HeadObjectOutput) \<times> 's"
  download :: "Session \<Rightarrow> Context \<Rightarrow> GetObjectInput \<Rightarrow> 's \<Rightarrow> (byte list \<times> error option) \<times> 's"
  deleteObject :: "S3 \<Rightarrow> Context \<Rightarrow> DeleteObjectInput \<Rightarrow> 's \<Rightarrow> error option \<times> 's"

subsection \<open>s3lib.go: the types\<close>

record S3Client =
  s3Client :: "S3 option"
  session :: "Session option"
  uploader :: "Uploader option"
  config :: Config
  debugMode :: bool

record FileInfo =
  Key :: string
  Size :: int64
  LastModified :: Time
  ETag :: string
  StorageClass :: string

record UploadOptions =
  opt_ContentType :: string
  opt_ContentDisposition :: string
  opt_CacheControl :: string
  opt_Metadata :: "(string \<rightharpoonup> string) option"
  opt_StorageClass :: string
  opt_ACL :: string

text \<open>
  What a method call can read and change: the receiver (\<open>None\<close> is a nil
  \<open>*S3Client\<close>), the service behind the SDK, the requests sent so far, and standard
  output.
\<close>
record 's state =
  handle :: "S3Client option"
  remote :: 's
  trace :: "sdk_call list"
  stdout :: "string list"

section \<open>The SDK calls the wrapper makes\<close>

text \<open>
  Each call goes through a reference held by the handle. Through a nil reference it
  panics before any request is sent; otherwise the request is recorded and the
  service answers.
\<close>

text \<open>
  The paginator's loop: \<open>for p.Next() { if !fn(page, lastPage) { break } }\<close>. The
  result says whether the loop ran to the end of the pages.
\<close>
fun each_page :: "('p \<Rightarrow> bool \<Rightarrow> 'a \<Rightarrow> bool \<times> 'a) \<Rightarrow> 'p list \<Rightarrow> bool \<Rightarrow> 'a \<Rightarrow> bool \<times> 'a" where
  "each_page fn [] failing acc = (True, acc)"
| "each_page fn (p # ps) failing acc =
     (case fn p (ps = [] \<and> \<not> failing) acc of
        (continue, acc') \<Rightarrow> if continue then each_page fn ps failing acc' else (False, acc'))"

definition ListObjectsV2PagesWithContext ::
  "'s sdk \<Rightarrow> S3 option \<Rightarrow> Context \<Rightarrow> ListObjectsV2Input
     \<Rightarrow> (ListObjectsV2Output \<Rightarrow> bool \<Rightarrow> 'a \<Rightarrow> bool \<times> 'a) \<Rightarrow> 'a \<Rightarrow> 's state
     \<Rightarrow> ('a \<times> error option) outcome \<times> 's state" where
  "ListObjectsV2PagesWithContext sdk cl ctx input fn acc s =
     (case cl of
        None \<Rightarrow> (Panic, s)
      | Some svc \<Rightarrow>
          (case listPages sdk svc ctx input (remote s) of
             ((pages, err), r) \<Rightarrow>
               (case each_page fn pages (err \<noteq> None) acc of
                  (finished, acc') \<Rightarrow>
                    (Return (acc', if finished then err else None),
                     s\<lparr>remote := r, trace := trace s @ [CallListObjectsV2 input]\<rparr>))))"

definition UploadWithContext ::
  "'s sdk \<Rightarrow> Uploader option \<Rightarrow> Context \<Rightarrow> UploadInput \<Rightarrow> 's state
     \<Rightarrow> (error + UploadOutput) outcome \<times> 's state" where
  "UploadWithContext sdk up ctx input s =
     (case up of
        None \<Rightarrow> (Panic, s)
      | Some u \<Rightarrow>
          (case upload sdk u ctx input (remote s) of
             (res, r) \<Rightarrow> (Return res, s\<lparr>remote := r, trace := trace s @ [CallUpload input]\<rparr>)))"

definition HeadObjectWithContext ::
  "'s sdk \<Rightarrow> S3 option \<Rightarrow> Context \<Rightarrow> HeadObjectInput \<Rightarrow> 's state
     \<Rightarrow> (error + HeadObjectOutput) outcome \<times> 's state" where
  "HeadObjectWithContext sdk cl ctx input s =
     (case cl of
        None \<Rightarrow> (Panic, s)
      | Some svc \<Rightarrow>
          (case headObject sdk svc ctx input (remote s) of
             (res, r) \<Rightarrow> (Return res, s\<lparr>remote := r, trace := trace s @ [CallHeadObject input]\<rparr>)))"

text \<open>
  \<open>s3manager.NewDownloader(c.session)\<close> followed by \<open>DownloadWithContext\<close> into a
  buffer that starts empty: the buffer's final bytes and the error.
\<close>
definition DownloadWithContext ::
  "'s sdk \<Rightarrow> Session option \<Rightarrow> Context \<Rightarrow> GetObjectInput \<Rightarrow> 's state
     \<Rightarrow> (byte list \<times> error option) outcome \<times> 's state" where
  "DownloadWithContext sdk sess ctx input s =
     (case sess of
        None \<Rightarrow> (Panic, s)
      | Some se \<Rightarrow>
          (case download sdk se ctx input (remote s) of
             (res, r) \<Rightarrow> (Return res, s\<lparr>remote := r, trace := trace s @ [CallDownload input]\<rparr>)))"

definition DeleteObjectWithContext ::
  "'s sdk \<Rightarrow> S3 option \<Rightarrow> Context \<Rightarrow> DeleteObjectInput \<Rightarrow> 's state
     \<Rightarrow> error option outcome \<times> 's state" where
  "DeleteObjectWithContext sdk cl ctx input s =
     (case cl of
        None \<Rightarrow> (Panic, s)
      | Some svc \<Rightarrow>
          (case deleteObject sdk svc ctx input (remote s) of
             (err, r) \<Rightarrow> (Return err, s\<lparr>remote := r, trace := trace s @ [CallDeleteObject input]\<rparr>)))"

section \<open>s3lib.go: the operations\<close>

definition NewS3Client :: "'s sdk \<Rightarrow> Config \<Rightarrow> S3Client option \<times> error option" where
  "NewS3Client sdk cfg =
     (case Validate cfg of
        Some err \<Rightarrow> (None, Some (Errorf ''invalid config: %w'' err))
      | None \<Rightarrow>
          (let awsCfg = \<lparr>aws_Region = Some (Region cfg),
                         aws_Credentials = NewStaticCredentials (AccessKey cfg) (SecretKey cfg) '''',
                         aws_Endpoint = None,
                         aws_S3ForcePathStyle = None\<rparr>;
               awsCfg = (if Endpoint cfg \<noteq> ''''
                         then awsCfg\<lparr>aws_Endpoint := Some (Endpoint cfg),
                                     aws_S3ForcePathStyle := Some True\<rparr>
                         else awsCfg)
           in case newSession sdk awsCfg of
                Inl err \<Rightarrow> (None, Some (Errorf ''failed to create session: %w'' err))
              | Inr sess \<Rightarrow>
                  (Some \<lparr>s3Client = Some (S3 sess),
                         session = Some sess,
                         uploader = Some (Uploader sess),
                         config = cfg,
                         debugMode = Debug cfg\<rparr>, None)))"

text \<open>\<open>append\<close> on a slice that may be nil.\<close>
definition append_slice :: "'a list option \<Rightarrow> 'a \<Rightarrow> 'a list option" where
  "append_slice xs x = (case xs of None \<Rightarrow> Some [x] | Some ys \<Rightarrow> Some (ys @ [x]))"

text \<open>The literal \<open>FileInfo{...}\<close> built for each listed object.\<close>
definition object_info :: "Object \<Rightarrow> FileInfo" where
  "object_info obj =
     \<lparr>Key = StringValue (obj_Key obj),
      Size = Int64Value (obj_Size obj),
      LastModified = TimeValue (obj_LastModified obj),
      ETag = StringValue (obj_ETag obj),
      StorageClass = StringValue (obj_StorageClass obj)\<rparr>"

text \<open>The closure handed to the paginator; \<open>files\<close> is the variable it captures.\<close>
definition collect_page ::
  "ListObjectsV2Output \<Rightarrow> bool \<Rightarrow> FileInfo list option \<Rightarrow> bool \<times> FileInfo list option" where
  "collect_page page lastPage files =
     (True, foldl (\<lambda>fs obj. append_slice fs (object_info obj)) files (lo_Contents page))"

text \<open>The request \<open>ListFiles\<close> builds: the prefix is set only when it is not empty.\<close>
definition list_input :: "string \<Rightarrow> string \<Rightarrow> ListObjectsV2Input" where
  "list_input bucket prefix =
     (let input = \<lparr>li_Bucket = Some bucket, li_Prefix = None\<rparr>;
          input = (if prefix \<noteq> '''' then input\<lparr>li_Prefix := Some prefix\<rparr> else input)
      in input)"

definition ListFiles ::
  "'s sdk \<Rightarrow> Context \<Rightarrow> string \<Rightarrow> string \<Rightarrow> 's state
     \<Rightarrow> (FileInfo list option \<times> error option) outcome \<times> 's state" where
  "ListFiles sdk ctx bucket prefix s =
     (if bucket = '''' then (Return (None, Some ErrInvalidBucket), s)
      else
        let input = list_input bucket prefix
        in case handle s of
             None \<Rightarrow> (Panic, s)
           | Some c \<Rightarrow>
               (case ListObjectsV2PagesWithContext sdk (s3Client c) ctx input collect_page None s of
                  (Panic, s') \<Rightarrow> (Panic, s')
                | (Return (files, Some err), s') \<Rightarrow>
                    (case awserr_Code err of
                       Some code \<Rightarrow>
                         if code = ErrCodeNoSuchBucket
                         then (Return (None, Some ErrInvalidBucket), s')
                         else (Return (None, Some (Errorf ''AWS error: %w'' err)), s')
                     | None \<Rightarrow> (Return (None, Some (Errorf ''failed to list objects: %w'' err)), s'))
                | (Return (files, None), s') \<Rightarrow> (Return (files, None), s')))"

text \<open>
  The request \<open>UploadFile\<close> builds: an option field is copied only when it is set
  (a non-empty string, a non-nil metadata map).
\<close>
definition upload_input ::
  "string \<Rightarrow> string \<Rightarrow> byte list \<Rightarrow> UploadOptions option \<Rightarrow> UploadInput" where
  "upload_input bucket filename data opts =
     (let input = \<lparr>ui_Bucket = Some bucket, ui_Key = Some filename, ui_Body = data,
                    ui_ContentType = None, ui_ContentDisposition = None,
                    ui_CacheControl = None, ui_Metadata = None,
                    ui_StorageClass = None, ui_ACL = None\<rparr>
      in case opts of
           None \<Rightarrow> input
         | Some opt \<Rightarrow>
             (let input = (if opt_ContentType opt \<noteq> ''''
                           then input\<lparr>ui_ContentType := Some (opt_ContentType opt)\<rparr>
                           else input);
                  input = (if opt_ContentDisposition opt \<noteq> ''''
                           then input\<lparr>ui_ContentDisposition := Some (opt_ContentDisposition opt)\<rparr>
                           else input);
                  input = (if opt_CacheControl opt \<noteq> ''''
                           then input\<lparr>ui_CacheControl := Some (opt_CacheControl opt)\<rparr>
                           else input);
                  input = (if opt_Metadata opt \<noteq> None
                           then input\<lparr>ui_Metadata := opt_Metadata opt\<rparr>
                           else input);
                  input = (if opt_StorageClass opt \<noteq> ''''
                           then input\<lparr>ui_StorageClass := Some (opt_StorageClass opt)\<rparr>
                           else input);
                  input = (if opt_ACL opt \<noteq> ''''
                           then input\<lparr>ui_ACL := Some (opt_ACL opt)\<rparr>
                           else input)
              in input))"

definition UploadFile ::
  "'s sdk \<Rightarrow> Context \<Rightarrow> string \<Rightarrow> string \<Rightarrow> byte list \<Rightarrow> UploadOptions option \<Rightarrow> 's state
     \<Rightarrow> (string \<times> error option) outcome \<times> 's state" where
  "UploadFile sdk ctx bucket filename data opts s =
     (if bucket = '''' then (Return ('''', Some ErrInvalidBucket), s)
      else if filename = '''' then (Return ('''', Some ErrInvalidKey), s)
      else
        let input = upload_input bucket filename data opts
        in case handle s of
             None \<Rightarrow> (Panic, s)
           | Some c \<Rightarrow>
               (case UploadWithContext sdk (uploader c) ctx input s of
                  (Panic, s') \<Rightarrow> (Panic, s')
                | (Return (Inl err), s') \<Rightarrow>
                    (case awserr_Code err of
                       Some code \<Rightarrow>
                         if code = ErrCodeNoSuchBucket
                         then (Return ('''', Some ErrInvalidBucket), s')
                         else (Return ('''', Some (Errorf ''AWS error: %w'' err)), s')
                     | None \<Rightarrow> (Return ('''', Some (Errorf ''failed to upload file: %w'' err)), s'))
                | (Return (Inr result), s') \<Rightarrow> (Return (Location result, None), s')))"

definition DownloadFile ::
  "'s sdk \<Rightarrow> Context \<Rightarrow> string \<Rightarrow> string \<Rightarrow> 's state
     \<Rightarrow> (byte list option \<times> error option) outcome \<times> 's state" where
  "DownloadFile sdk ctx bucket key s =
     (if bucket = '''' then (Return (None, Some ErrInvalidBucket), s)
      else if key = '''' then (Return (None, Some ErrInvalidKey), s)
      else
        case handle s of
          None \<Rightarrow> (Panic, s)
        | Some c \<Rightarrow>
            (case HeadObjectWithContext sdk (s3Client c) ctx
                    \<lparr>hi_Bucket = Some bucket, hi_Key = Some key\<rparr> s of
               (Panic, s') \<Rightarrow> (Panic, s')
             | (Return (Inl err), s') \<Rightarrow>
                 (case awserr_Code err of
                    Some code \<Rightarrow>
                      if code = ''NotFound'' then (Return (None, Some ErrFileNotFound), s')
                      else if code = ErrCodeNoSuchBucket
                      then (Return (None, Some ErrInvalidBucket), s')
                      else (Return (None, Some (Errorf ''AWS error: %w'' err)), s')
                  | None \<Rightarrow> (Return (None, Some (Errorf ''failed to get object info: %w'' err)), s'))
             | (Return (Inr probe), s') \<Rightarrow>
                 (case DownloadWithContext sdk (session c) ctx
                         \<lparr>gi_Bucket = Some bucket, gi_Key = Some key\<rparr> s' of
                    (Panic, s'') \<Rightarrow> (Panic, s'')
                  | (Return (buf, Some err), s'') \<Rightarrow>
                      (Return (None, Some (Errorf ''failed to download file: %w'' err)), s'')
                  | (Return (buf, None), s'') \<Rightarrow> (Return (Some buf, None), s''))))"

definition DeleteFile ::
  "'s sdk \<Rightarrow> Context \<Rightarrow> string \<Rightarrow> string \<Rightarrow> 's state \<Rightarrow> error option outcome \<times> 's state" where
  "DeleteFile sdk ctx bucket key s =
     (if bucket = '''' then (Return (Some ErrInvalidBucket), s)
      else if key = '''' then (Return (Some ErrInvalidKey), s)
      else
        case handle s of
          None \<Rightarrow> (Panic, s)
        | Some c \<Rightarrow>
            (case DeleteObjectWithContext sdk (s3Client c) ctx
                    \<lparr>di_Bucket = Some bucket, di_Key = Some key\<rparr> s of
               (Panic, s') \<Rightarrow> (Panic, s')
             | (Return (Some err), s') \<Rightarrow>
                 (case awserr_Code err of
                    Some code \<Rightarrow>
                      if code = ErrCodeNoSuchBucket then (Return (Some ErrInvalidBucket), s')
                      else (Return (Some (Errorf ''AWS error: %w'' err)), s')
                  | None \<Rightarrow> (Return (Some (Errorf ''failed to delete file: %w'' err)), s'))
             | (Return None, s') \<Rightarrow> (Return None, s')))"

definition GetFileInfo ::
  "'s sdk \<Rightarrow> Context \<Rightarrow> string \<Rightarrow> string \<Rightarrow> 's state
     \<Rightarrow> (FileInfo option \<times> error option) outcome \<times> 's state" where
  "GetFileInfo sdk ctx bucket key s =
     (if bucket = '''' then (Return (None, Some ErrInvalidBucket), s)
      else if key = '''' then (Return (None, Some ErrInvalidKey), s)
      else
        case handle s of
          None \<Rightarrow> (Panic, s)
        | Some c \<Rightarrow>
            (case HeadObjectWithContext sdk (s3Client c) ctx
                    \<lparr>hi_Bucket = Some bucket, hi_Key = Some key\<rparr> s of
               (Panic, s') \<Rightarrow> (Panic, s')
             | (Return (Inl err), s') \<Rightarrow>
                 (case awserr_Code err of
                    Some code \<Rightarrow>
                      if code = ''NotFound'' then (Return (None, Some ErrFileNotFound), s')
                      else if code = ErrCodeNoSuchBucket
                      then (Return (None, Some ErrInvalidBucket), s')
                      else (Return (None, Some (Errorf ''AWS error: %w'' err)), s')
                  | None \<Rightarrow> (Return (None, Some (Errorf ''failed to get file info: %w'' err)), s'))
             | (Return (Inr result), s') \<Rightarrow>
                 (Return (Some \<lparr>Key = key,
                                 Size = Int64Value (ho_ContentLength result),
                                 LastModified = TimeValue (ho_LastModified result),
                                 ETag = StringValue (ho_ETag result),
                                 StorageClass = StringValue (ho_StorageClass result)\<rparr>, None), s')))"

definition Close :: "'s state \<Rightarrow> error option outcome \<times> 's state" where
  "Close s =
     (case handle s of
        None \<Rightarrow> (Return None, s)
      | Some c \<Rightarrow>
          (let c = (if session c \<noteq> None then c\<lparr>session := None\<rparr> else c);
               c = (if s3Client c \<noteq> None then c\<lparr>s3Client := None\<rparr> else c);
               c = (if uploader c \<noteq> None then c\<lparr>uploader := None\<rparr> else c);
               out = (if debugMode c
                      then stdout s @ [''S3 client resources cleaned up'']
                      else stdout s)
           in (Return None, s\<lparr>handle := Some c, stdout := out\<rparr>)))"

section \<open>What the service promises about a prefix\<close>

text \<open>\<open>strings.HasPrefix(k, p)\<close>.\<close>
definition starts_with :: "string \<Rightarrow> string \<Rightarrow> bool" where
  "starts_with p k = (take (length p) k = p)"

text \<open>
  The ListObjectsV2 contract for \<open>Prefix\<close>, as far as this client, context and
  service state go: a request that names a prefix is answered with pages that hold
  only keys beginning with it. The wrapper does no filtering of its own; this is the
  service's part.
\<close>
definition honours_prefix :: "'s sdk \<Rightarrow> S3 \<Rightarrow> Context \<Rightarrow> 's \<Rightarrow> bool" where
  "honours_prefix sdk svc ctx st =
     (\<forall>inp p. li_Prefix inp = Some p \<longrightarrow>
        (\<forall>page \<in> set (fst (fst (listPages sdk svc ctx inp st))).
           \<forall>obj \<in> set (lo_Contents page). starts_with p (StringValue (obj_Key obj))))"

section \<open>An in-memory service for concrete runs\<close>

text \<open>
  A small stand-in for the service: buckets of keyed objects. A request whose context
  deadline has passed is cancelled by the SDK; a missing bucket and a missing key are
  reported under their S3 error codes; a listing comes back one object per page.
\<close>

type_synonym store = "(string \<times> (string \<times> byte list) list) list"

definition expired :: "Context \<Rightarrow> bool" where
  "expired ctx = (case ctx of Background \<Rightarrow> False | WithDeadline t \<Rightarrow> t \<le> 0)"

definition canceled :: error where
  "canceled = AwsErr ''RequestCanceled'' ''request context canceled''"

definition no_bucket :: error where
  "no_bucket = AwsErr ''NoSuchBucket'' ''The specified bucket does not exist''"

definition no_key :: error where
  "no_key = AwsErr ''NotFound'' ''Not Found''"

definition stored_object :: "string \<times> byte list \<Rightarrow> Object" where
  "stored_object kd =
     \<lparr>obj_Key = Some (fst kd), obj_Size = Some (of_nat (length (snd kd))),
      obj_LastModified = Some 1, obj_ETag = Some ''etag'',
      obj_StorageClass = Some ''STANDARD''\<rparr>"

definition has_prefix :: "string option \<Rightarrow> string \<Rightarrow> bool" where
  "has_prefix p k = (case p of None \<Rightarrow> True | Some q \<Rightarrow> starts_with q k)"

definition mem_sdk :: "store sdk" where
  "mem_sdk =
     \<lparr>newSession = (\<lambda>cfg. Inr (Session cfg)),
      listPages = (\<lambda>svc ctx inp st.
        if expired ctx then (([], Some canceled), st)
        else case map_of st (StringValue (li_Bucket inp)) of
               None \<Rightarrow> (([], Some no_bucket), st)
             | Some objs \<Rightarrow>
                 ((map (\<lambda>kd. \<lparr>lo_Contents = [stored_object kd]\<rparr>)
                     (filter (\<lambda>kd. has_prefix (li_Prefix inp) (fst kd)) objs), None), st)),
      upload = (\<lambda>up ctx inp st.
        if expired ctx then (Inl canceled, st)
        else case map_of st (StringValue (ui_Bucket inp)) of
               None \<Rightarrow> (Inl no_bucket, st)
             | Some objs \<Rightarrow>
                 (Inr \<lparr>Location = ''/'' @ StringValue (ui_Bucket inp) @ ''/'' @ StringValue (ui_Key inp)\<rparr>,
                  AList.update (StringValue (ui_Bucket inp))
                    (AList.update (StringValue (ui_Key inp)) (ui_Body inp) objs) st)),
      headObject = (\<lambda>svc ctx inp st.
        if expired ctx then (Inl canceled, st)
        else case map_of st (StringValue (hi_Bucket inp)) of
               None \<Rightarrow> (Inl no_bucket, st)
             | Some objs \<Rightarrow>
                 (case map_of objs (StringValue (hi_Key inp)) of
                    None \<Rightarrow> (Inl no_key, st)
                  | Some d \<Rightarrow>
                      (Inr \<lparr>ho_ContentLength = Some (of_nat (length d)), ho_LastModified = Some 1,
                            ho_ETag = Some ''etag'', ho_StorageClass = None\<rparr>, st))),
      download = (\<lambda>sess ctx inp st.
        if expired ctx then (([], Some canceled), st)
        else case map_of st (StringValue (gi_Bucket inp)) of
               None \<Rightarrow> (([], Some no_bucket), st)
             | Some objs \<Rightarrow>
                 (case map_of objs (StringValue (gi_Key inp)) of
                    None \<Rightarrow> (([], Some (AwsErr ''NoSuchKey'' ''The specified key does not exist'')), st)
                  | Some d \<Rightarrow> ((d, None), st))),
      deleteObject = (\<lambda>svc ctx inp st.
        if expired ctx then (Some canceled, st)
        else case map_of st (StringValue (di_Bucket inp)) of
               None \<Rightarrow> (Some no_bucket, st)
             | Some objs \<Rightarrow>
                 (None, AList.update (StringValue (di_Bucket inp))
                          (AList.delete (StringValue (di_Key inp)) objs) st))\<rparr>"

text \<open>The configuration, bucket, file and payload of the package's tests.\<close>

definition testConfig :: Config where
  "testConfig =
     \<lparr>Region = ''us-west-2'', AccessKey = ''test-key'', SecretKey = ''test-secret'',
      Duration = 300000000000, Endpoint = '''', UseSSL = False, Debug = True\<rparr>"

definition testFileContent :: "byte list" where
  "testFileContent = [72, 101, 108, 108, 111, 44, 32, 87, 111, 114, 108, 100, 33]"

definition testStore :: store where
  "testStore =
     [(''test-bucket'',
        [(''test-file.txt'', testFileContent), (''test/a'', [1, 2]), (''test/b'', [])])]"

definition testSession :: Session where
  "testSession =
     Session \<lparr>aws_Region = Some ''us-west-2'',
              aws_Credentials = (''test-key'', ''test-secret'', ''''),
              aws_Endpoint = None, aws_S3ForcePathStyle = None\<rparr>"

text \<open>The handle \<open>setupTestClient\<close> gets from \<open>NewS3Client(testConfig)\<close>.\<close>
definition testClient :: S3Client where
  "testClient =
     \<lparr>s3Client = Some (S3 testSession), session = Some testSession,
      uploader = Some (Uploader testSession), config = testConfig, debugMode = True\<rparr>"

definition testState :: "store state" where
  "testState = \<lparr>handle = Some testClient, remote = testStore, trace = [], stdout = []\<rparr>"

section \<open>Construction and configuration\<close>

text \<open>No operation reads the \<open>config\<close> field of the handle.\<close>

lemma ListFiles_ignores_config:
  "fst (ListFiles sdk ctx bucket prefix (s\<lparr>handle := Some (c\<lparr>config := cfg\<rparr>)\<rparr>))
     = fst (ListFiles sdk ctx bucket prefix (s\<lparr>handle := Some c\<rparr>))"
  by (simp add: ListFiles_def ListObjectsV2PagesWithContext_def Let_def
           split: option.splits prod.splits)

lemma UploadFile_ignores_config:
  "fst (UploadFile sdk ctx bucket key data opts (s\<lparr>handle := Some (c\<lparr>config := cfg\<rparr>)\<rparr>))
     = fst (UploadFile sdk ctx bucket key data opts (s\<lparr>handle := Some c\<rparr>))"
  by (simp add: UploadFile_def UploadWithContext_def Let_def
           split: option.splits prod.splits sum.splits)

lemma DownloadFile_ignores_config:
  "fst (DownloadFile sdk ctx bucket key (s\<lparr>handle := Some (c\<lparr>config := cfg\<rparr>)\<rparr>))
     = fst (DownloadFile sdk ctx bucket key (s\<lparr>handle := Some c\<rparr>))"
  by (simp add: DownloadFile_def HeadObjectWithContext_def DownloadWithContext_def Let_def
           split: option.splits prod.splits sum.splits)

lemma DeleteFile_ignores_config:
  "fst (DeleteFile sdk ctx bucket key (s\<lparr>handle := Some (c\<lparr>config := cfg\<rparr>)\<rparr>))
     = fst (DeleteFile sdk ctx bucket key (s\<lparr>handle := Some c\<rparr>))"
  by (simp add: DeleteFile_def DeleteObjectWithContext_def Let_def
           split: option.splits prod.splits sum.splits)

lemma GetFileInfo_ignores_config:
  "fst (GetFileInfo sdk ctx bucket key (s\<lparr>handle := Some (c\<lparr>config := cfg\<rparr>)\<rparr>))
     = fst (GetFileInfo sdk ctx bucket key (s\<lparr>handle := Some c\<rparr>))"
  by (simp add: GetFileInfo_def HeadObjectWithContext_def Let_def
           split: option.splits prod.splits sum.splits)

lemma Validate_missing:
  "Region cfg = '''' \<or> AccessKey cfg = '''' \<or> SecretKey cfg = ''''
     \<Longrightarrow> Validate cfg = Some ErrInvalidConfig"
  by (auto simp: Validate_def)

text \<open>
  C3. A configuration whose region, access key or secret key is empty makes
  \<open>NewS3Client\<close> return a nil handle and an error that \<open>errors.Is\<close> matches with
  \<open>ErrInvalidConfig\<close>. The check belongs to construction only: an operation gives the
  same result on a handle whatever configuration the handle holds.
\<close>
theorem NewS3Client_rejects_missing_fields:
  assumes "Region cfg = '''' \<or> AccessKey cfg = '''' \<or> SecretKey cfg = ''''"
  shows "fst (NewS3Client sdk cfg) = None
         \<and> (\<exists>err. snd (NewS3Client sdk cfg) = Some err \<and> errors_Is err ErrInvalidConfig)
         \<and> fst (ListFiles sdk ctx bucket prefix (s\<lparr>handle := Some (c\<lparr>config := cfg\<rparr>)\<rparr>))
             = fst (ListFiles sdk ctx bucket prefix (s\<lparr>handle := Some c\<rparr>))
         \<and> fst (UploadFile sdk ctx bucket key data opts (s\<lparr>handle := Some (c\<lparr>config := cfg\<rparr>)\<rparr>))
             = fst (UploadFile sdk ctx bucket key data opts (s\<lparr>handle := Some c\<rparr>))
         \<and> fst (DownloadFile sdk ctx bucket key (s\<lparr>handle := Some (c\<lparr>config := cfg\<rparr>)\<rparr>))
             = fst (DownloadFile sdk ctx bucket key (s\<lparr>handle := Some c\<rparr>))
         \<and> fst (DeleteFile sdk ctx bucket key (s\<lparr>handle := Some (c\<lparr>config := cfg\<rparr>)\<rparr>))
             = fst (DeleteFile sdk ctx bucket key (s\<lparr>handle := Some c\<rparr>))
         \<and> fst (GetFileInfo sdk ctx bucket key (s\<lparr>handle := Some (c\<lparr>config := cfg\<rparr>)\<rparr>))
             = fst (GetFileInfo sdk ctx bucket key (s\<lparr>handle := Some c\<rparr>))"
proof -
  from assms have v: "Validate cfg = Some ErrInvalidConfig"
    by (rule Validate_missing)
  have a: "fst (NewS3Client sdk cfg) = None"
    by (simp add: NewS3Client_def v)
  have b: "\<exists>err. snd (NewS3Client sdk cfg) = Some err \<and> errors_Is err ErrInvalidConfig"
    by (simp add: NewS3Client_def v)
  show ?thesis
    by (intro conjI a b ListFiles_ignores_config UploadFile_ignores_config
          DownloadFile_ignores_config DeleteFile_ignores_config GetFileInfo_ignores_config)
qed

text \<open>The test case "Empty access key".\<close>
theorem NewS3Client_rejects_missing_fields_witness:
  "fst (NewS3Client mem_sdk (testConfig\<lparr>AccessKey := ''''\<rparr>)) = None
   \<and> (\<exists>err. snd (NewS3Client mem_sdk (testConfig\<lparr>AccessKey := ''''\<rparr>)) = Some err
          \<and> errors_Is err ErrInvalidConfig)"
proof -
  have h: "Region (testConfig\<lparr>AccessKey := ''''\<rparr>) = ''''
           \<or> AccessKey (testConfig\<lparr>AccessKey := ''''\<rparr>) = ''''
           \<or> SecretKey (testConfig\<lparr>AccessKey := ''''\<rparr>) = ''''"
    by simp
  from NewS3Client_rejects_missing_fields [OF h, of mem_sdk] show ?thesis
    by blast
qed

section \<open>Input checks\<close>

text \<open>
  C10. With both bucket and key empty, \<open>UploadFile\<close>, \<open>DownloadFile\<close>,
  \<open>DeleteFile\<close> and \<open>GetFileInfo\<close> return \<open>ErrInvalidBucket\<close>, not
  \<open>ErrInvalidKey\<close>: the bucket is checked first, so an empty bucket decides the
  error whatever the key is.
\<close>
theorem bucket_check_precedes_key_check:
  "UploadFile sdk ctx '''' '''' data opts s = (Return ('''', Some ErrInvalidBucket), s)
   \<and> DownloadFile sdk ctx '''' '''' s = (Return (None, Some ErrInvalidBucket), s)
   \<and> DeleteFile sdk ctx '''' '''' s = (Return (Some ErrInvalidBucket), s)
   \<and> GetFileInfo sdk ctx '''' '''' s = (Return (None, Some ErrInvalidBucket), s)
   \<and> UploadFile sdk ctx '''' key data opts s = (Return ('''', Some ErrInvalidBucket), s)
   \<and> DownloadFile sdk ctx '''' key s = (Return (None, Some ErrInvalidBucket), s)
   \<and> DeleteFile sdk ctx '''' key s = (Return (Some ErrInvalidBucket), s)
   \<and> GetFileInfo sdk ctx '''' key s = (Return (None, Some ErrInvalidBucket), s)"
  by (simp add: UploadFile_def DownloadFile_def DeleteFile_def GetFileInfo_def)

text \<open>
  C2 as stated fails where the key and the bucket are both empty: \<open>UploadFile\<close>
  reports the bucket, not the key.
\<close>
theorem empty_key_with_empty_bucket_counterexample:
  "fst (UploadFile mem_sdk Background '''' '''' testFileContent None testState)
     \<noteq> Return ('''', Some ErrInvalidKey)
   \<and> fst (UploadFile mem_sdk Background '''' '''' testFileContent None testState)
     = Return ('''', Some ErrInvalidBucket)"
  by (simp add: UploadFile_def)

text \<open>
  C2, amended. An empty bucket makes \<open>ListFiles\<close>, \<open>UploadFile\<close>,
  \<open>DownloadFile\<close>, \<open>DeleteFile\<close> and \<open>GetFileInfo\<close> return
  \<open>ErrInvalidBucket\<close>; an empty key together with a non-empty bucket makes
  \<open>UploadFile\<close>, \<open>DownloadFile\<close>, \<open>DeleteFile\<close> and \<open>GetFileInfo\<close> return
  \<open>ErrInvalidKey\<close>. In both cases the state comes back as it was: no request was
  sent, the service is untouched.
\<close>
theorem empty_arguments_rejected_locally:
  "ListFiles sdk ctx '''' prefix s = (Return (None, Some ErrInvalidBucket), s)
   \<and> UploadFile sdk ctx '''' key data opts s = (Return ('''', Some ErrInvalidBucket), s)
   \<and> DownloadFile sdk ctx '''' key s = (Return (None, Some ErrInvalidBucket), s)
   \<and> DeleteFile sdk ctx '''' key s = (Return (Some ErrInvalidBucket), s)
   \<and> GetFileInfo sdk ctx '''' key s = (Return (None, Some ErrInvalidBucket), s)
   \<and> (bucket \<noteq> '''' \<longrightarrow>
        UploadFile sdk ctx bucket '''' data opts s = (Return ('''', Some ErrInvalidKey), s)
        \<and> DownloadFile sdk ctx bucket '''' s = (Return (None, Some ErrInvalidKey), s)
        \<and> DeleteFile sdk ctx bucket '''' s = (Return (Some ErrInvalidKey), s)
        \<and> GetFileInfo sdk ctx bucket '''' s = (Return (None, Some ErrInvalidKey), s))"
  by (simp add: ListFiles_def UploadFile_def DownloadFile_def DeleteFile_def GetFileInfo_def)

text \<open>The test cases "Empty bucket" and "Empty key".\<close>
theorem empty_arguments_rejected_locally_witness:
  "ListFiles mem_sdk Background '''' ''test/'' testState
     = (Return (None, Some ErrInvalidBucket), testState)
   \<and> UploadFile mem_sdk Background ''test-bucket'' '''' testFileContent None testState
     = (Return ('''', Some ErrInvalidKey), testState)
   \<and> DownloadFile mem_sdk Background ''test-bucket'' '''' testState
     = (Return (None, Some ErrInvalidKey), testState)
   \<and> DeleteFile mem_sdk Background ''test-bucket'' '''' testState
     = (Return (Some ErrInvalidKey), testState)
   \<and> GetFileInfo mem_sdk Background ''test-bucket'' '''' testState
     = (Return (None, Some ErrInvalidKey), testState)"
  using empty_arguments_rejected_locally
          [of mem_sdk Background "''test/''" testState "''test-file.txt''" testFileContent None
              "''test-bucket''"]
  by simp

section \<open>Download\<close>

text \<open>
  The handle used in the concrete runs is the one \<open>NewS3Client\<close> builds from the
  tests' configuration.
\<close>
lemma testClient_constructed: "NewS3Client mem_sdk testConfig = (Some testClient, None)"
  by (simp add: NewS3Client_def Validate_def testConfig_def mem_sdk_def testClient_def
        testSession_def NewStaticCredentials_def Let_def)

text \<open>
  C4. On a constructed handle, with a non-empty bucket and key, \<open>DownloadFile\<close>
  sends the head request first. A probe error with code \<open>NotFound\<close> gives
  \<open>ErrFileNotFound\<close>, one with code \<open>NoSuchBucket\<close> gives \<open>ErrInvalidBucket\<close>; after
  any probe error the call returns an error and the head request is the only request
  sent. When the probe succeeds the transfer follows, and when the transfer reports
  no error the bytes written to the buffer are returned.
\<close>
theorem DownloadFile_probes_then_fetches:
  assumes "bucket \<noteq> ''''" and "key \<noteq> ''''"
    and "handle s = Some c" and "s3Client c = Some svc" and "session c = Some sess"
  shows
    "(\<forall>msg r.
        headObject sdk svc ctx \<lparr>hi_Bucket = Some bucket, hi_Key = Some key\<rparr> (remote s)
          = (Inl (AwsErr ''NotFound'' msg), r) \<longrightarrow>
        DownloadFile sdk ctx bucket key s
          = (Return (None, Some ErrFileNotFound),
             s\<lparr>remote := r,
               trace := trace s @ [CallHeadObject \<lparr>hi_Bucket = Some bucket, hi_Key = Some key\<rparr>]\<rparr>))
     \<and> (\<forall>msg r.
        headObject sdk svc ctx \<lparr>hi_Bucket = Some bucket, hi_Key = Some key\<rparr> (remote s)
          = (Inl (AwsErr ErrCodeNoSuchBucket msg), r) \<longrightarrow>
        DownloadFile sdk ctx bucket key s
          = (Return (None, Some ErrInvalidBucket),
             s\<lparr>remote := r,
               trace := trace s @ [CallHeadObject \<lparr>hi_Bucket = Some bucket, hi_Key = Some key\<rparr>]\<rparr>))
     \<and> (\<forall>e r.
        headObject sdk svc ctx \<lparr>hi_Bucket = Some bucket, hi_Key = Some key\<rparr> (remote s)
          = (Inl e, r) \<longrightarrow>
        (\<exists>err. fst (DownloadFile sdk ctx bucket key s) = Return (None, Some err))
        \<and> trace (snd (DownloadFile sdk ctx bucket key s))
            = trace s @ [CallHeadObject \<lparr>hi_Bucket = Some bucket, hi_Key = Some key\<rparr>])
     \<and> (\<forall>probe r buf r'.
        headObject sdk svc ctx \<lparr>hi_Bucket = Some bucket, hi_Key = Some key\<rparr> (remote s)
          = (Inr probe, r)
        \<and> download sdk sess ctx \<lparr>gi_Bucket = Some bucket, gi_Key = Some key\<rparr> r
          = ((buf, None), r') \<longrightarrow>
        DownloadFile sdk ctx bucket key s
          = (Return (Some buf, None),
             s\<lparr>remote := r',
               trace := trace s @ [CallHeadObject \<lparr>hi_Bucket = Some bucket, hi_Key = Some key\<rparr>,
                                   CallDownload \<lparr>gi_Bucket = Some bucket, gi_Key = Some key\<rparr>]\<rparr>))"
  using assms
  by (auto simp: DownloadFile_def HeadObjectWithContext_def DownloadWithContext_def
        ErrCodeNoSuchBucket_def
      split: option.splits)

text \<open>
  The test cases "Non-existent file" and "Valid download", and a missing bucket.
\<close>
theorem DownloadFile_probes_then_fetches_witness:
  "DownloadFile mem_sdk Background ''test-bucket'' ''nonexistent.txt'' testState
     = (Return (None, Some ErrFileNotFound),
        testState\<lparr>remote := testStore,
          trace := [CallHeadObject \<lparr>hi_Bucket = Some ''test-bucket'',
                                    hi_Key = Some ''nonexistent.txt''\<rparr>]\<rparr>)
   \<and> DownloadFile mem_sdk Background ''nonexistent-bucket'' ''test-file.txt'' testState
     = (Return (None, Some ErrInvalidBucket),
        testState\<lparr>remote := testStore,
          trace := [CallHeadObject \<lparr>hi_Bucket = Some ''nonexistent-bucket'',
                                    hi_Key = Some ''test-file.txt''\<rparr>]\<rparr>)
   \<and> DownloadFile mem_sdk Background ''test-bucket'' ''test-file.txt'' testState
     = (Return (Some testFileContent, None),
        testState\<lparr>remote := testStore,
          trace := [CallHeadObject \<lparr>hi_Bucket = Some ''test-bucket'',
                                    hi_Key = Some ''test-file.txt''\<rparr>,
                    CallDownload \<lparr>gi_Bucket = Some ''test-bucket'',
                                  gi_Key = Some ''test-file.txt''\<rparr>]\<rparr>)"
proof -
  have h: "handle testState = Some testClient" "s3Client testClient = Some (S3 testSession)"
    "session testClient = Some testSession"
    by (simp_all add: testState_def testClient_def)
  have r: "remote testState = testStore" "trace testState = []"
    by (simp_all add: testState_def)
  have a: "''test-bucket'' \<noteq> ''''" "''nonexistent.txt'' \<noteq> ''''"
    "''nonexistent-bucket'' \<noteq> ''''" "''test-file.txt'' \<noteq> ''''"
    by simp_all
  note t1 = DownloadFile_probes_then_fetches [OF a(1) a(2) h, of mem_sdk Background]
  note t2 = DownloadFile_probes_then_fetches [OF a(3) a(4) h, of mem_sdk Background]
  note t3 = DownloadFile_probes_then_fetches [OF a(1) a(4) h, of mem_sdk Background]
  have 1: "DownloadFile mem_sdk Background ''test-bucket'' ''nonexistent.txt'' testState
     = (Return (None, Some ErrFileNotFound),
        testState\<lparr>remote := testStore,
          trace := [CallHeadObject \<lparr>hi_Bucket = Some ''test-bucket'',
                                    hi_Key = Some ''nonexistent.txt''\<rparr>]\<rparr>)"
    using t1
    by (simp add: r mem_sdk_def expired_def StringValue_def testStore_def no_key_def)
  have 2: "DownloadFile mem_sdk Background ''nonexistent-bucket'' ''test-file.txt'' testState
     = (Return (None, Some ErrInvalidBucket),
        testState\<lparr>remote := testStore,
          trace := [CallHeadObject \<lparr>hi_Bucket = Some ''nonexistent-bucket'',
                                    hi_Key = Some ''test-file.txt''\<rparr>]\<rparr>)"
    using t2
    by (simp add: r mem_sdk_def expired_def StringValue_def testStore_def no_bucket_def
          ErrCodeNoSuchBucket_def)
  have 3: "DownloadFile mem_sdk Background ''test-bucket'' ''test-file.txt'' testState
     = (Return (Some testFileContent, None),
        testState\<lparr>remote := testStore,
          trace := [CallHeadObject \<lparr>hi_Bucket = Some ''test-bucket'',
                                    hi_Key = Some ''test-file.txt''\<rparr>,
                    CallDownload \<lparr>gi_Bucket = Some ''test-bucket'',
                                  gi_Key = Some ''test-file.txt''\<rparr>]\<rparr>)"
    using t3
    by (simp add: r mem_sdk_def expired_def StringValue_def testStore_def)
  from 1 2 3 show ?thesis by (intro conjI)
qed

section \<open>Listing\<close>

text \<open>
  The closure never stops the paging, so every page is visited and the objects
  accumulate in the order of the pages.
\<close>
lemma append_slice_simps:
  "append_slice None x = Some [x]"
  "append_slice (Some ys) x = Some (ys @ [x])"
  by (simp_all add: append_slice_def)

lemma foldl_append_slice:
  "foldl (\<lambda>fs obj. append_slice fs (f obj)) acc objs
     = (if objs = [] then acc
        else Some ((case acc of None \<Rightarrow> [] | Some ys \<Rightarrow> ys) @ map f objs))"
proof (induction objs arbitrary: acc)
  case Nil
  show ?case by simp
next
  case (Cons obj objs)
  show ?case
    by (cases acc) (simp_all add: Cons.IH append_slice_simps)
qed

lemma each_page_never_stopped:
  assumes "\<And>p b a. fn p b a = (True, g p a)"
  shows "each_page fn pages failing acc = (True, foldl (\<lambda>a p. g p a) acc pages)"
  by (induction pages arbitrary: acc) (simp_all add: assms)

lemma foldl_pages:
  "foldl (\<lambda>a p. foldl (\<lambda>fs obj. append_slice fs (object_info obj)) a (lo_Contents p)) acc pages
     = (if concat (map lo_Contents pages) = [] then acc
        else Some ((case acc of None \<Rightarrow> [] | Some ys \<Rightarrow> ys)
                     @ map object_info (concat (map lo_Contents pages))))"
proof (induction pages arbitrary: acc)
  case Nil
  show ?case by simp
next
  case (Cons p ps)
  have "foldl (\<lambda>a p. foldl (\<lambda>fs obj. append_slice fs (object_info obj)) a (lo_Contents p))
          acc (p # ps)
        = (let acc' = foldl (\<lambda>fs obj. append_slice fs (object_info obj)) acc (lo_Contents p)
           in if concat (map lo_Contents ps) = [] then acc'
              else Some ((case acc' of None \<Rightarrow> [] | Some ys \<Rightarrow> ys)
                           @ map object_info (concat (map lo_Contents ps))))"
    by (simp only: foldl_Cons Cons.IH Let_def)
  then show ?case
    by (cases acc) (simp_all add: foldl_append_slice Let_def)
qed

lemma each_page_collect_page:
  "each_page collect_page pages failing acc
     = (True,
        if concat (map lo_Contents pages) = [] then acc
        else Some ((case acc of None \<Rightarrow> [] | Some ys \<Rightarrow> ys)
                     @ map object_info (concat (map lo_Contents pages))))"
proof -
  have "each_page collect_page pages failing acc
          = (True, foldl (\<lambda>a p. foldl (\<lambda>fs obj. append_slice fs (object_info obj)) a
                                   (lo_Contents p)) acc pages)"
    by (rule each_page_never_stopped) (simp add: collect_page_def)
  then show ?thesis
    by (simp only: foldl_pages)
qed

text \<open>The in-memory service keeps the promise about the prefix.\<close>

lemma mem_sdk_honours_prefix: "honours_prefix mem_sdk svc ctx st"
  by (auto simp: honours_prefix_def mem_sdk_def has_prefix_def stored_object_def
        StringValue_def
      split: option.splits)

text \<open>
  C8. On a constructed handle, with a non-empty bucket, when the paging ends without
  an error \<open>ListFiles\<close> returns the objects of all pages, concatenated in the order
  the service gave them (the nil slice when there is none), each as a \<open>FileInfo\<close> with
  the object's key, size, last-modified time, entity tag and storage class. The one
  request it sends names the bucket, and the prefix exactly when the prefix is not
  empty. So with a non-empty prefix, against a service that honours the prefix of a
  request, every key returned begins with the prefix; with an empty prefix the
  request carries no prefix and every object the service lists is returned.
\<close>

theorem ListFiles_concatenates_pages:
  assumes "bucket \<noteq> ''''"
    and "handle s = Some c" and "s3Client c = Some svc"
    and "listPages sdk svc ctx (list_input bucket prefix) (remote s) = ((pages, None), r)"
  shows
    "ListFiles sdk ctx bucket prefix s
       = (Return (if concat (map lo_Contents pages) = [] then None
                  else Some (map object_info (concat (map lo_Contents pages))), None),
          s\<lparr>remote := r, trace := trace s @ [CallListObjectsV2 (list_input bucket prefix)]\<rparr>)
     \<and> list_input bucket prefix
         = \<lparr>li_Bucket = Some bucket, li_Prefix = (if prefix = '''' then None else Some prefix)\<rparr>
     \<and> object_info obj
         = \<lparr>Key = StringValue (obj_Key obj), Size = Int64Value (obj_Size obj),
            LastModified = TimeValue (obj_LastModified obj), ETag = StringValue (obj_ETag obj),
            StorageClass = StringValue (obj_StorageClass obj)\<rparr>
     \<and> (prefix \<noteq> '''' \<and> honours_prefix sdk svc ctx (remote s) \<longrightarrow>
          (\<forall>files. fst (ListFiles sdk ctx bucket prefix s) = Return (Some files, None) \<longrightarrow>
             (\<forall>f \<in> set files. starts_with prefix (Key f))))
     \<and> (prefix = '''' \<longrightarrow>
          li_Prefix (list_input bucket prefix) = None
          \<and> (\<forall>page \<in> set pages. \<forall>obj \<in> set (lo_Contents page).
                \<exists>files. fst (ListFiles sdk ctx bucket prefix s) = Return (Some files, None)
                        \<and> object_info obj \<in> set files))"
proof -
  let ?objs = "concat (map lo_Contents pages)"
  have run: "ListFiles sdk ctx bucket prefix s
       = (Return (if ?objs = [] then None else Some (map object_info ?objs), None),
          s\<lparr>remote := r, trace := trace s @ [CallListObjectsV2 (list_input bucket prefix)]\<rparr>)"
    using assms
    by (simp add: ListFiles_def ListObjectsV2PagesWithContext_def each_page_collect_page Let_def)
  have inp: "list_input bucket prefix
         = \<lparr>li_Bucket = Some bucket, li_Prefix = (if prefix = '''' then None else Some prefix)\<rparr>"
    by (simp add: list_input_def Let_def)
  have info: "object_info obj
         = \<lparr>Key = StringValue (obj_Key obj), Size = Int64Value (obj_Size obj),
            LastModified = TimeValue (obj_LastModified obj), ETag = StringValue (obj_ETag obj),
            StorageClass = StringValue (obj_StorageClass obj)\<rparr>"
    by (simp add: object_info_def)
  have filtered: "\<forall>f \<in> set files. starts_with prefix (Key f)"
    if p: "prefix \<noteq> ''''" and h: "honours_prefix sdk svc ctx (remote s)"
      and res: "fst (ListFiles sdk ctx bucket prefix s) = Return (Some files, None)"
    for files
  proof
    fix f
    assume "f \<in> set files"
    with res run have "f \<in> set (map object_info ?objs)"
      by (auto split: if_splits)
    then obtain page obj where po: "page \<in> set pages" "obj \<in> set (lo_Contents page)"
      and f: "f = object_info obj"
      by auto
    from p inp have "li_Prefix (list_input bucket prefix) = Some prefix"
      by simp
    with h assms(4) po have "starts_with prefix (StringValue (obj_Key obj))"
      by (auto simp: honours_prefix_def)
    with f show "starts_with prefix (Key f)"
      by (simp add: object_info_def)
  qed
  have everything: "\<exists>files. fst (ListFiles sdk ctx bucket prefix s) = Return (Some files, None)
                        \<and> object_info o' \<in> set files"
    if "page \<in> set pages" and "o' \<in> set (lo_Contents page)" for page o'
  proof -
    from that have m: "o' \<in> set ?objs" by auto
    then have ne: "?objs \<noteq> []"
      by (metis empty_iff empty_set)
    from m have "object_info o' \<in> set (map object_info ?objs)"
      by (simp only: set_map) (rule imageI)
    with run ne show ?thesis by (simp only: fst_conv if_False) blast
  qed
  from inp have none: "prefix = '''' \<Longrightarrow> li_Prefix (list_input bucket prefix) = None"
    by simp
  have c4: "prefix \<noteq> '''' \<and> honours_prefix sdk svc ctx (remote s) \<longrightarrow>
          (\<forall>files. fst (ListFiles sdk ctx bucket prefix s) = Return (Some files, None) \<longrightarrow>
             (\<forall>f \<in> set files. starts_with prefix (Key f)))"
    using filtered by blast
  have c5: "prefix = '''' \<longrightarrow>
          li_Prefix (list_input bucket prefix) = None
          \<and> (\<forall>page \<in> set pages. \<forall>obj \<in> set (lo_Contents page).
                \<exists>files. fst (ListFiles sdk ctx bucket prefix s) = Return (Some files, None)
                        \<and> object_info obj \<in> set files)"
  proof (intro impI conjI ballI)
    assume "prefix = ''''"
    then show "li_Prefix (list_input bucket prefix) = None" by (rule none)
  next
    fix page obj
    assume "page \<in> set pages" and "obj \<in> set (lo_Contents page)"
    then show "\<exists>files. fst (ListFiles sdk ctx bucket prefix s) = Return (Some files, None)
                        \<and> object_info obj \<in> set files"
      by (rule everything)
  qed
  show ?thesis
    by (intro conjI run inp info c4 c5)
qed

text \<open>
  The test cases "With prefix" and "Valid bucket": two pages under \<open>test/\<close>, all of
  whose keys begin with \<open>test/\<close>, and three pages without a prefix.
\<close>

theorem ListFiles_concatenates_pages_witness:
  "fst (ListFiles mem_sdk Background ''test-bucket'' ''test/'' testState)
     = Return (Some [\<lparr>Key = ''test/a'', Size = 2, LastModified = 1, ETag = ''etag'',
                       StorageClass = ''STANDARD''\<rparr>,
                     \<lparr>Key = ''test/b'', Size = 0, LastModified = 1, ETag = ''etag'',
                       StorageClass = ''STANDARD''\<rparr>], None)
   \<and> starts_with ''test/'' ''test/a'' \<and> starts_with ''test/'' ''test/b''
   \<and> fst (ListFiles mem_sdk Background ''test-bucket'' '''' testState)
     = Return (Some [\<lparr>Key = ''test-file.txt'', Size = 13, LastModified = 1, ETag = ''etag'',
                       StorageClass = ''STANDARD''\<rparr>,
                     \<lparr>Key = ''test/a'', Size = 2, LastModified = 1, ETag = ''etag'',
                       StorageClass = ''STANDARD''\<rparr>,
                     \<lparr>Key = ''test/b'', Size = 0, LastModified = 1, ETag = ''etag'',
                       StorageClass = ''STANDARD''\<rparr>], None)"
proof -
  have h: "handle testState = Some testClient" "s3Client testClient = Some (S3 testSession)"
    by (simp_all add: testState_def testClient_def)
  have b: "''test-bucket'' \<noteq> ''''" by simp
  have p1: "listPages mem_sdk (S3 testSession) Background (list_input ''test-bucket'' ''test/'')
              (remote testState)
            = ((map (\<lambda>kd. \<lparr>lo_Contents = [stored_object kd]\<rparr>) [(''test/a'', [1, 2]), (''test/b'', [])],
                None), testStore)"
    by (simp add: mem_sdk_def expired_def list_input_def StringValue_def testState_def
          testStore_def has_prefix_def starts_with_def Let_def)
  have p2: "listPages mem_sdk (S3 testSession) Background (list_input ''test-bucket'' '''')
              (remote testState)
            = ((map (\<lambda>kd. \<lparr>lo_Contents = [stored_object kd]\<rparr>)
                  [(''test-file.txt'', testFileContent), (''test/a'', [1, 2]), (''test/b'', [])],
                None), testStore)"
    by (simp add: mem_sdk_def expired_def list_input_def StringValue_def testState_def
          testStore_def has_prefix_def starts_with_def Let_def)
  have q: "''test/'' \<noteq> ''''" by simp
  note t1 = ListFiles_concatenates_pages [OF b h p1]
  note t2 = ListFiles_concatenates_pages [OF b h p2]
  have 1: "fst (ListFiles mem_sdk Background ''test-bucket'' ''test/'' testState)
     = Return (Some [\<lparr>Key = ''test/a'', Size = 2, LastModified = 1, ETag = ''etag'',
                       StorageClass = ''STANDARD''\<rparr>,
                     \<lparr>Key = ''test/b'', Size = 0, LastModified = 1, ETag = ''etag'',
                       StorageClass = ''STANDARD''\<rparr>], None)"
    using t1
    by (simp add: stored_object_def object_info_def StringValue_def Int64Value_def
          TimeValue_def)
  have "\<forall>files. fst (ListFiles mem_sdk Background ''test-bucket'' ''test/'' testState)
                 = Return (Some files, None)
          \<longrightarrow> (\<forall>f \<in> set files. starts_with ''test/'' (Key f))"
    using t1 q mem_sdk_honours_prefix [of "S3 testSession" Background "remote testState"]
    by blast
  with 1 have 2: "starts_with ''test/'' ''test/a''" "starts_with ''test/'' ''test/b''"
    by simp_all
  have 3: "fst (ListFiles mem_sdk Background ''test-bucket'' '''' testState)
     = Return (Some [\<lparr>Key = ''test-file.txt'', Size = 13, LastModified = 1, ETag = ''etag'',
                       StorageClass = ''STANDARD''\<rparr>,
                     \<lparr>Key = ''test/a'', Size = 2, LastModified = 1, ETag = ''etag'',
                       StorageClass = ''STANDARD''\<rparr>,
                     \<lparr>Key = ''test/b'', Size = 0, LastModified = 1, ETag = ''etag'',
                       StorageClass = ''STANDARD''\<rparr>], None)"
    using t2
    by (simp add: stored_object_def object_info_def StringValue_def Int64Value_def
          TimeValue_def testFileContent_def)
  from 1 2 3 show ?thesis by (intro conjI)
qed

section \<open>Metadata\<close>

text \<open>
  C9. On a constructed handle, with a non-empty bucket and key, \<open>GetFileInfo\<close> sends
  one head request. An error with code \<open>NotFound\<close> gives \<open>ErrFileNotFound\<close>, one with
  code \<open>NoSuchBucket\<close> gives \<open>ErrInvalidBucket\<close>. On success the \<open>FileInfo\<close> takes
  size, last-modified time, entity tag and storage class from the response and its
  key from the argument.
\<close>
theorem GetFileInfo_maps_probe:
  assumes "bucket \<noteq> ''''" and "key \<noteq> ''''"
    and "handle s = Some c" and "s3Client c = Some svc"
  shows
    "(\<forall>msg r.
        headObject sdk svc ctx \<lparr>hi_Bucket = Some bucket, hi_Key = Some key\<rparr> (remote s)
          = (Inl (AwsErr ''NotFound'' msg), r) \<longrightarrow>
        GetFileInfo sdk ctx bucket key s
          = (Return (None, Some ErrFileNotFound),
             s\<lparr>remote := r,
               trace := trace s @ [CallHeadObject \<lparr>hi_Bucket = Some bucket, hi_Key = Some key\<rparr>]\<rparr>))
     \<and> (\<forall>msg r.
        headObject sdk svc ctx \<lparr>hi_Bucket = Some bucket, hi_Key = Some key\<rparr> (remote s)
          = (Inl (AwsErr ErrCodeNoSuchBucket msg), r) \<longrightarrow>
        GetFileInfo sdk ctx bucket key s
          = (Return (None, Some ErrInvalidBucket),
             s\<lparr>remote := r,
               trace := trace s @ [CallHeadObject \<lparr>hi_Bucket = Some bucket, hi_Key = Some key\<rparr>]\<rparr>))
     \<and> (\<forall>result r.
        headObject sdk svc ctx \<lparr>hi_Bucket = Some bucket, hi_Key = Some key\<rparr> (remote s)
          = (Inr result, r) \<longrightarrow>
        GetFileInfo sdk ctx bucket key s
          = (Return (Some \<lparr>Key = key,
                            Size = Int64Value (ho_ContentLength result),
                            LastModified = TimeValue (ho_LastModified result),
                            ETag = StringValue (ho_ETag result),
                            StorageClass = StringValue (ho_StorageClass result)\<rparr>, None),
             s\<lparr>remote := r,
               trace := trace s @ [CallHeadObject \<lparr>hi_Bucket = Some bucket, hi_Key = Some key\<rparr>]\<rparr>))"
  using assms
  by (auto simp: GetFileInfo_def HeadObjectWithContext_def ErrCodeNoSuchBucket_def)

text \<open>
  The test cases "Non-existent file" and "Valid file info" (size 13), and a missing
  bucket.
\<close>
theorem GetFileInfo_maps_probe_witness:
  "fst (GetFileInfo mem_sdk Background ''test-bucket'' ''nonexistent.txt'' testState)
     = Return (None, Some ErrFileNotFound)
   \<and> fst (GetFileInfo mem_sdk Background ''nonexistent-bucket'' ''test-file.txt'' testState)
     = Return (None, Some ErrInvalidBucket)
   \<and> GetFileInfo mem_sdk Background ''test-bucket'' ''test-file.txt'' testState
     = (Return (Some \<lparr>Key = ''test-file.txt'', Size = 13, LastModified = 1, ETag = ''etag'',
                       StorageClass = ''''\<rparr>, None),
        testState\<lparr>remote := testStore,
          trace := [CallHeadObject \<lparr>hi_Bucket = Some ''test-bucket'',
                                    hi_Key = Some ''test-file.txt''\<rparr>]\<rparr>)"
proof -
  have h: "handle testState = Some testClient" "s3Client testClient = Some (S3 testSession)"
    by (simp_all add: testState_def testClient_def)
  have r: "remote testState = testStore" "trace testState = []"
    by (simp_all add: testState_def)
  have a: "''test-bucket'' \<noteq> ''''" "''nonexistent.txt'' \<noteq> ''''"
    "''nonexistent-bucket'' \<noteq> ''''" "''test-file.txt'' \<noteq> ''''"
    by simp_all
  have 1: "fst (GetFileInfo mem_sdk Background ''test-bucket'' ''nonexistent.txt'' testState)
     = Return (None, Some ErrFileNotFound)"
    using GetFileInfo_maps_probe [OF a(1) a(2) h, of mem_sdk Background]
    by (simp add: r mem_sdk_def expired_def StringValue_def testStore_def no_key_def)
  have 2: "fst (GetFileInfo mem_sdk Background ''nonexistent-bucket'' ''test-file.txt'' testState)
     = Return (None, Some ErrInvalidBucket)"
    using GetFileInfo_maps_probe [OF a(3) a(4) h, of mem_sdk Background]
    by (simp add: r mem_sdk_def expired_def StringValue_def testStore_def no_bucket_def
          ErrCodeNoSuchBucket_def)
  have 3: "GetFileInfo mem_sdk Background ''test-bucket'' ''test-file.txt'' testState
     = (Return (Some \<lparr>Key = ''test-file.txt'', Size = 13, LastModified = 1, ETag = ''etag'',
                       StorageClass = ''''\<rparr>, None),
        testState\<lparr>remote := testStore,
          trace := [CallHeadObject \<lparr>hi_Bucket = Some ''test-bucket'',
                                    hi_Key = Some ''test-file.txt''\<rparr>]\<rparr>)"
    using GetFileInfo_maps_probe [OF a(1) a(4) h, of mem_sdk Background]
    by (simp add: r mem_sdk_def expired_def StringValue_def testStore_def Int64Value_def
          TimeValue_def testFileContent_def)
  from 1 2 3 show ?thesis by (intro conjI)
qed

section \<open>Failures reported by the SDK\<close>
lemma errors_Is_refl: "errors_Is e e"
  by (cases e) simp_all

lemma UploadFile_failure:
  assumes "bucket \<noteq> ''''" and "key \<noteq> ''''"
    and "handle s = Some c" and "uploader c = Some up"
    and "upload sdk up ctx (upload_input bucket key data opts) (remote s) = (Inl e, r)"
  shows "fst (UploadFile sdk ctx bucket key data opts s)
           = Return ('''', Some (if awserr_Code e = Some ErrCodeNoSuchBucket then ErrInvalidBucket
                                 else if awserr_Code e = None
                                 then Errorf ''failed to upload file: %w'' e
                                 else Errorf ''AWS error: %w'' e))"
  using assms
  by (auto simp: UploadFile_def UploadWithContext_def split: option.splits)

lemma ListFiles_failure:
  assumes "bucket \<noteq> ''''"
    and "handle s = Some c" and "s3Client c = Some svc"
    and "listPages sdk svc ctx (list_input bucket prefix) (remote s) = ((pages, Some e), r)"
  shows "fst (ListFiles sdk ctx bucket prefix s)
           = Return (None, Some (if awserr_Code e = Some ErrCodeNoSuchBucket then ErrInvalidBucket
                                 else if awserr_Code e = None
                                 then Errorf ''failed to list objects: %w'' e
                                 else Errorf ''AWS error: %w'' e))"
  using assms
  by (auto simp: ListFiles_def ListObjectsV2PagesWithContext_def each_page_collect_page
      split: option.splits)

lemma DeleteFile_failure:
  assumes "bucket \<noteq> ''''" and "key \<noteq> ''''"
    and "handle s = Some c" and "s3Client c = Some svc"
    and "deleteObject sdk svc ctx \<lparr>di_Bucket = Some bucket, di_Key = Some key\<rparr> (remote s)
           = (Some e, r)"
  shows "fst (DeleteFile sdk ctx bucket key s)
           = Return (Some (if awserr_Code e = Some ErrCodeNoSuchBucket then ErrInvalidBucket
                           else if awserr_Code e = None
                           then Errorf ''failed to delete file: %w'' e
                           else Errorf ''AWS error: %w'' e))"
  using assms
  by (auto simp: DeleteFile_def DeleteObjectWithContext_def split: option.splits)

text \<open>
  C5. On a constructed handle, with a non-empty bucket and key, when the SDK call of
  \<open>UploadFile\<close>, \<open>ListFiles\<close> or \<open>DeleteFile\<close> fails with the error \<open>e\<close>: if \<open>e\<close> is
  an \<open>awserr.Error\<close> with code \<open>NoSuchBucket\<close> the operation returns
  \<open>ErrInvalidBucket\<close>; otherwise it returns an error that wraps \<open>e\<close>, so that
  \<open>errors.Unwrap\<close> gives \<open>e\<close> back and \<open>errors.Is\<close> finds it.
\<close>
theorem sdk_failures_mapped_or_wrapped:
  assumes "bucket \<noteq> ''''" and "key \<noteq> ''''"
    and "handle s = Some c" and "s3Client c = Some svc" and "uploader c = Some up"
  shows
    "(\<forall>r. upload sdk up ctx (upload_input bucket key data opts) (remote s) = (Inl e, r) \<longrightarrow>
        (awserr_Code e = Some ErrCodeNoSuchBucket \<longrightarrow>
           fst (UploadFile sdk ctx bucket key data opts s) = Return ('''', Some ErrInvalidBucket))
        \<and> (awserr_Code e \<noteq> Some ErrCodeNoSuchBucket \<longrightarrow>
           (\<exists>w. fst (UploadFile sdk ctx bucket key data opts s) = Return ('''', Some w)
                \<and> Unwrap w = Some e \<and> errors_Is w e)))
     \<and> (\<forall>pages r.
        listPages sdk svc ctx (list_input bucket prefix) (remote s) = ((pages, Some e), r) \<longrightarrow>
        (awserr_Code e = Some ErrCodeNoSuchBucket \<longrightarrow>
           fst (ListFiles sdk ctx bucket prefix s) = Return (None, Some ErrInvalidBucket))
        \<and> (awserr_Code e \<noteq> Some ErrCodeNoSuchBucket \<longrightarrow>
           (\<exists>w. fst (ListFiles sdk ctx bucket prefix s) = Return (None, Some w)
                \<and> Unwrap w = Some e \<and> errors_Is w e)))
     \<and> (\<forall>r.
        deleteObject sdk svc ctx \<lparr>di_Bucket = Some bucket, di_Key = Some key\<rparr> (remote s)
          = (Some e, r) \<longrightarrow>
        (awserr_Code e = Some ErrCodeNoSuchBucket \<longrightarrow>
           fst (DeleteFile sdk ctx bucket key s) = Return (Some ErrInvalidBucket))
        \<and> (awserr_Code e \<noteq> Some ErrCodeNoSuchBucket \<longrightarrow>
           (\<exists>w. fst (DeleteFile sdk ctx bucket key s) = Return (Some w)
                \<and> Unwrap w = Some e \<and> errors_Is w e)))"
proof (intro conjI allI impI)
  fix r
  assume u: "upload sdk up ctx (upload_input bucket key data opts) (remote s) = (Inl e, r)"
  note f = UploadFile_failure [OF assms(1,2,3,5) u]
  show "fst (UploadFile sdk ctx bucket key data opts s) = Return ('''', Some ErrInvalidBucket)"
    if "awserr_Code e = Some ErrCodeNoSuchBucket"
    using f that by simp
  show "\<exists>w. fst (UploadFile sdk ctx bucket key data opts s) = Return ('''', Some w)
             \<and> Unwrap w = Some e \<and> errors_Is w e"
    if "awserr_Code e \<noteq> Some ErrCodeNoSuchBucket"
    using f that by (simp add: errors_Is_refl)
next
  fix pages r
  assume l: "listPages sdk svc ctx (list_input bucket prefix) (remote s) = ((pages, Some e), r)"
  note f = ListFiles_failure [OF assms(1,3,4) l]
  show "fst (ListFiles sdk ctx bucket prefix s) = Return (None, Some ErrInvalidBucket)"
    if "awserr_Code e = Some ErrCodeNoSuchBucket"
    using f that by simp
  show "\<exists>w. fst (ListFiles sdk ctx bucket prefix s) = Return (None, Some w)
             \<and> Unwrap w = Some e \<and> errors_Is w e"
    if "awserr_Code e \<noteq> Some ErrCodeNoSuchBucket"
    using f that by (simp add: errors_Is_refl)
next
  fix r
  assume d: "deleteObject sdk svc ctx \<lparr>di_Bucket = Some bucket, di_Key = Some key\<rparr> (remote s)
               = (Some e, r)"
  note f = DeleteFile_failure [OF assms(1,2,3,4) d]
  show "fst (DeleteFile sdk ctx bucket key s) = Return (Some ErrInvalidBucket)"
    if "awserr_Code e = Some ErrCodeNoSuchBucket"
    using f that by simp
  show "\<exists>w. fst (DeleteFile sdk ctx bucket key s) = Return (Some w)
             \<and> Unwrap w = Some e \<and> errors_Is w e"
    if "awserr_Code e \<noteq> Some ErrCodeNoSuchBucket"
    using f that by (simp add: errors_Is_refl)
qed

text \<open>
  A missing bucket, and a request cancelled because its deadline has passed.
\<close>
theorem sdk_failures_mapped_or_wrapped_witness:
  "fst (UploadFile mem_sdk Background ''nonexistent-bucket'' ''test-file.txt'' testFileContent
          None testState) = Return ('''', Some ErrInvalidBucket)
   \<and> fst (ListFiles mem_sdk Background ''nonexistent-bucket'' '''' testState)
       = Return (None, Some ErrInvalidBucket)
   \<and> fst (DeleteFile mem_sdk Background ''nonexistent-bucket'' ''test-file.txt'' testState)
       = Return (Some ErrInvalidBucket)
   \<and> (\<exists>w. fst (UploadFile mem_sdk (WithDeadline 0) ''test-bucket'' ''test-file.txt''
                  testFileContent None testState) = Return ('''', Some w)
          \<and> Unwrap w = Some canceled \<and> errors_Is w canceled)
   \<and> (\<exists>w. fst (ListFiles mem_sdk (WithDeadline 0) ''test-bucket'' '''' testState)
             = Return (None, Some w)
          \<and> Unwrap w = Some canceled \<and> errors_Is w canceled)
   \<and> (\<exists>w. fst (DeleteFile mem_sdk (WithDeadline 0) ''test-bucket'' ''test-file.txt'' testState)
             = Return (Some w)
          \<and> Unwrap w = Some canceled \<and> errors_Is w canceled)"
proof -
  have h: "handle testState = Some testClient" "s3Client testClient = Some (S3 testSession)"
    "uploader testClient = Some (Uploader testSession)"
    by (simp_all add: testState_def testClient_def)
  have r: "remote testState = testStore"
    by (simp add: testState_def)
  have a: "''nonexistent-bucket'' \<noteq> ''''" "''test-bucket'' \<noteq> ''''" "''test-file.txt'' \<noteq> ''''"
    by simp_all
  have c: "awserr_Code no_bucket = Some ErrCodeNoSuchBucket"
    "awserr_Code canceled \<noteq> Some ErrCodeNoSuchBucket"
    by (simp_all add: no_bucket_def canceled_def ErrCodeNoSuchBucket_def)
  note missing = sdk_failures_mapped_or_wrapped
    [OF a(1) a(3) h, where sdk = mem_sdk and ctx = Background and e = no_bucket
       and data = testFileContent and opts = None and prefix = "''''"]
  note late = sdk_failures_mapped_or_wrapped
    [OF a(2) a(3) h, where sdk = mem_sdk and ctx = "WithDeadline 0" and e = canceled
       and data = testFileContent and opts = None and prefix = "''''"]
  have 1: "fst (UploadFile mem_sdk Background ''nonexistent-bucket'' ''test-file.txt''
                  testFileContent None testState) = Return ('''', Some ErrInvalidBucket)"
    "fst (ListFiles mem_sdk Background ''nonexistent-bucket'' '''' testState)
       = Return (None, Some ErrInvalidBucket)"
    "fst (DeleteFile mem_sdk Background ''nonexistent-bucket'' ''test-file.txt'' testState)
       = Return (Some ErrInvalidBucket)"
    using missing c(1)
    by (simp_all add: r mem_sdk_def expired_def StringValue_def testStore_def upload_input_def
          list_input_def Let_def)
  have 2: "\<exists>w. fst (UploadFile mem_sdk (WithDeadline 0) ''test-bucket'' ''test-file.txt''
                  testFileContent None testState) = Return ('''', Some w)
          \<and> Unwrap w = Some canceled \<and> errors_Is w canceled"
    "\<exists>w. fst (ListFiles mem_sdk (WithDeadline 0) ''test-bucket'' '''' testState)
             = Return (None, Some w)
          \<and> Unwrap w = Some canceled \<and> errors_Is w canceled"
    "\<exists>w. fst (DeleteFile mem_sdk (WithDeadline 0) ''test-bucket'' ''test-file.txt'' testState)
             = Return (Some w)
          \<and> Unwrap w = Some canceled \<and> errors_Is w canceled"
    using late c(2)
    by (simp_all add: r mem_sdk_def expired_def)
  from 1 2 show ?thesis by (intro conjI)
qed

section \<open>Teardown and the handle\<close>
lemma Close_returns_nil: "fst (Close s) = Return None"
  by (simp add: Close_def Let_def split: option.splits)

lemma Close_handle:
  "handle (snd (Close s))
     = map_option (\<lambda>c. c\<lparr>session := None, s3Client := None, uploader := None\<rparr>) (handle s)"
  by (cases "handle s") (auto simp: Close_def Let_def)

text \<open>
  C7. \<open>Close\<close> never panics and always returns a nil error: on any state, on the
  state reached after any number of earlier calls of \<open>Close\<close>, and on a nil handle,
  which it leaves alone. A second call finds the references already dropped and
  changes the handle no further; no call touches the service. The debug flag does not
  change the result: it only decides whether one line is printed.
\<close>
theorem Close_total_and_repeatable:
  "fst (Close s) = Return None
   \<and> fst (Close (((\<lambda>t. snd (Close t)) ^^ n) s)) = Return None
   \<and> fst (Close (s\<lparr>handle := None\<rparr>)) = Return None
   \<and> snd (Close (s\<lparr>handle := None\<rparr>)) = s\<lparr>handle := None\<rparr>
   \<and> handle (snd (Close (snd (Close s)))) = handle (snd (Close s))
   \<and> remote (snd (Close s)) = remote s
   \<and> trace (snd (Close s)) = trace s
   \<and> fst (Close (s\<lparr>handle := Some (c\<lparr>debugMode := True\<rparr>)\<rparr>))
       = fst (Close (s\<lparr>handle := Some (c\<lparr>debugMode := False\<rparr>)\<rparr>))
   \<and> stdout (snd (Close (s\<lparr>handle := Some (c\<lparr>debugMode := True\<rparr>)\<rparr>)))
       = stdout s @ [''S3 client resources cleaned up'']
   \<and> stdout (snd (Close (s\<lparr>handle := Some (c\<lparr>debugMode := False\<rparr>)\<rparr>))) = stdout s"
proof -
  have a: "handle (snd (Close (snd (Close s)))) = handle (snd (Close s))"
    by (cases "handle s") (simp_all add: Close_handle)
  have b: "remote (snd (Close s)) = remote s" "trace (snd (Close s)) = trace s"
    by (simp_all add: Close_def Let_def split: option.splits)
  have c: "snd (Close (s\<lparr>handle := None\<rparr>)) = s\<lparr>handle := None\<rparr>"
    by (simp add: Close_def)
  have d: "stdout (snd (Close (s\<lparr>handle := Some (c\<lparr>debugMode := True\<rparr>)\<rparr>)))
             = stdout s @ [''S3 client resources cleaned up'']"
    "stdout (snd (Close (s\<lparr>handle := Some (c\<lparr>debugMode := False\<rparr>)\<rparr>))) = stdout s"
    by (simp_all add: Close_def Let_def)
  show ?thesis
    by (simp only: Close_returns_nil a b c d simp_thms)
qed

text \<open>
  C6 as stated fails for \<open>Close\<close>: on the handle of the tests the session reference
  is set before the call and nil after it.
\<close>
theorem Close_clears_references_counterexample:
  "handle (snd (Close testState)) \<noteq> handle testState
   \<and> session testClient \<noteq> None
   \<and> map_option session (handle (snd (Close testState))) = Some None"
  by (simp add: Close_handle testState_def testClient_def Let_def)

text \<open>
  No transfer operation assigns to a field of its receiver.
\<close>
lemma ListFiles_handle: "handle (snd (ListFiles sdk ctx bucket prefix s)) = handle s"
  by (simp add: ListFiles_def ListObjectsV2PagesWithContext_def Let_def
           split: option.splits prod.splits)

lemma UploadFile_handle: "handle (snd (UploadFile sdk ctx bucket key data opts s)) = handle s"
  by (simp add: UploadFile_def UploadWithContext_def Let_def
           split: option.splits prod.splits sum.splits)

lemma DownloadFile_handle: "handle (snd (DownloadFile sdk ctx bucket key s)) = handle s"
  by (simp add: DownloadFile_def HeadObjectWithContext_def DownloadWithContext_def Let_def
           split: option.splits prod.splits sum.splits)

lemma DeleteFile_handle: "handle (snd (DeleteFile sdk ctx bucket key s)) = handle s"
  by (simp add: DeleteFile_def DeleteObjectWithContext_def Let_def
           split: option.splits prod.splits sum.splits)

lemma GetFileInfo_handle: "handle (snd (GetFileInfo sdk ctx bucket key s)) = handle s"
  by (simp add: GetFileInfo_def HeadObjectWithContext_def Let_def
           split: option.splits prod.splits sum.splits)

text \<open>
  C6, amended. \<open>ListFiles\<close>, \<open>UploadFile\<close>, \<open>DownloadFile\<close>, \<open>DeleteFile\<close> and
  \<open>GetFileInfo\<close> leave every field of the handle as it was. \<open>Close\<close> sets
  \<open>session\<close>, \<open>s3Client\<close> and \<open>uploader\<close> to nil and leaves \<open>config\<close> and
  \<open>debugMode\<close> as they were.
\<close>
theorem handle_changed_by_Close_only:
  "handle (snd (ListFiles sdk ctx bucket prefix s)) = handle s
   \<and> handle (snd (UploadFile sdk ctx bucket key data opts s)) = handle s
   \<and> handle (snd (DownloadFile sdk ctx bucket key s)) = handle s
   \<and> handle (snd (DeleteFile sdk ctx bucket key s)) = handle s
   \<and> handle (snd (GetFileInfo sdk ctx bucket key s)) = handle s
   \<and> handle (snd (Close s))
       = map_option (\<lambda>c. c\<lparr>session := None, s3Client := None, uploader := None\<rparr>) (handle s)
   \<and> map_option config (handle (snd (Close s))) = map_option config (handle s)
   \<and> map_option debugMode (handle (snd (Close s))) = map_option debugMode (handle s)"
proof -
  have "map_option config (handle (snd (Close s))) = map_option config (handle s)"
    and "map_option debugMode (handle (snd (Close s))) = map_option debugMode (handle s)"
    by (cases "handle s"; simp add: Close_handle)+
  then show ?thesis
    by (simp only: ListFiles_handle UploadFile_handle DownloadFile_handle DeleteFile_handle
          GetFileInfo_handle Close_handle simp_thms)
qed

end
